theory Spec2Isabelle
  imports Complex_Main
begin

section \<open>Conventions of the embedding\<close>

text \<open>
  Python floats are modelled as HOL reals (ideal arithmetic, no rounding), Python ints as
  \<open>int\<close>, strings as \<open>string\<close>.  A dict payload with a fixed set of possible keys is a
  record whose fields are options: \<open>None\<close> is an absent key, so that \<open>d.get(k, default)\<close>
  is \<open>dict_get (k d) default\<close> and \<open>d[k]\<close> on an absent key is the error \<open>KeyError\<close>.
  Record fields carry a short prefix because several payloads share key names.
  Points in time (\<open>datetime\<close>) and durations (\<open>timedelta\<close>) are integers counting
  microseconds, which is the resolution of both Python types.
\<close>

datatype error = KeyError | ZeroDivisionError

definition dict_get :: "'a option \<Rightarrow> 'a \<Rightarrow> 'a" where
  "dict_get v dflt = (case v of None \<Rightarrow> dflt | Some x \<Rightarrow> x)"

definition dict_index :: "'a option \<Rightarrow> error + 'a" where
  "dict_index v = (case v of None \<Rightarrow> Inl KeyError | Some x \<Rightarrow> Inr x)"

text \<open>Sequencing of steps that may raise: the first exception ends the computation.\<close>

definition bind_err :: "error + 'a \<Rightarrow> ('a \<Rightarrow> error + 'b) \<Rightarrow> error + 'b" where
  "bind_err m f = (case m of Inl e \<Rightarrow> Inl e | Inr x \<Rightarrow> f x)"

section \<open>The risk scorer (backend/ml/risk\_scorer.py)\<close>

subsection \<open>Construction\<close>

record RiskScorer =
  weather_weight :: real
  sentiment_weight :: real
  congestion_weight :: real
  historical_weight :: real
  high_risk_threshold :: real
  medium_risk_threshold :: real

text \<open>
  \<open>__init__\<close> stores the four weights, divides each by their sum and sets the two
  thresholds.  It validates nothing; the only way it can fail is the float division by a
  zero sum, which raises \<open>ZeroDivisionError\<close> at the first \<open>/=\<close>.  The arguments \<open>w\<close>,
  \<open>s\<close>, \<open>c\<close> and \<open>h\<close> are \<open>weather_weight\<close>, \<open>sentiment_weight\<close>, \<open>congestion_weight\<close>
  and \<open>historical_weight\<close>.
\<close>

definition RiskScorer_init :: "real \<Rightarrow> real \<Rightarrow> real \<Rightarrow> real \<Rightarrow> error + RiskScorer" where
  "RiskScorer_init w s c h =
     (let total = w + s + c + h in
      if total = 0 then Inl ZeroDivisionError
      else Inr \<lparr> weather_weight = w / total,
                 sentiment_weight = s / total,
                 congestion_weight = c / total,
                 historical_weight = h / total,
                 high_risk_threshold = 0.7,
                 medium_risk_threshold = 0.4 \<rparr>)"


subsection \<open>Payloads\<close>

text \<open>
  A weather record has the keys written by \<open>DataSimulator.generate_weather_alert\<close>; the
  orchestrator passes \<open>{}\<close> (every key absent) when a port has no alert.
\<close>

record weather_data =
  wd_weather_zone :: "string option"
  wd_type :: "string option"
  wd_severity :: "string option"
  wd_duration_hours :: "real option"
  wd_affected_port_id :: "string option"
  wd_affected_port_name :: "string option"
  wd_latitude :: "real option"
  wd_longitude :: "real option"
  wd_timestamp :: "int option"

record sentiment_data =
  sd_sentiment_score :: "real option"
  sd_article_count :: "int option"
  sd_urgency_keywords :: "int option"

record congestion_data =
  cd_congestion_index :: "real option"
  cd_wait_time_hours :: "real option"
  cd_vessel_count :: "int option"

record historical_data =
  hd_disruption_rate :: "real option"
  hd_recent_disruptions :: "int option"

subsection \<open>Component scorers\<close>

definition severity_map :: "string \<rightharpoonup> real" where
  "severity_map =
     [''none'' \<mapsto> 0.0, ''light'' \<mapsto> 0.2, ''moderate'' \<mapsto> 0.5,
      ''severe'' \<mapsto> 0.8, ''extreme'' \<mapsto> 1.0]"

definition type_multipliers :: "string \<rightharpoonup> real" where
  "type_multipliers =
     [''hurricane'' \<mapsto> 1.2, ''typhoon'' \<mapsto> 1.2, ''storm'' \<mapsto> 1.0,
      ''fog'' \<mapsto> 0.6, ''ice'' \<mapsto> 0.8, ''wind'' \<mapsto> 0.7]"

definition compute_weather_risk :: "weather_data \<Rightarrow> real" where
  "compute_weather_risk weather_data =
     (let base_risk = dict_get (severity_map (dict_get (wd_severity weather_data) ''none'')) 0.0;
          multiplier = dict_get (type_multipliers (dict_get (wd_type weather_data) ''storm'')) 1.0;
          duration_hours = dict_get (wd_duration_hours weather_data) 0;
          duration_factor = min 1.0 (duration_hours / 48.0);
          risk = base_risk * multiplier * (0.7 + 0.3 * duration_factor)
      in min 1.0 risk)"

definition compute_sentiment_risk :: "sentiment_data \<Rightarrow> real" where
  "compute_sentiment_risk sentiment_data =
     (let sentiment_score = dict_get (sd_sentiment_score sentiment_data) 0.0;
          sentiment_risk = (1.0 - sentiment_score) / 2.0;
          article_count = dict_get (sd_article_count sentiment_data) 0;
          volume_factor = min 1.0 (real_of_int article_count / 10.0);
          urgency_count = dict_get (sd_urgency_keywords sentiment_data) 0;
          urgency_factor = min 1.0 (real_of_int urgency_count / 5.0);
          risk = sentiment_risk * (0.6 + 0.2 * volume_factor + 0.2 * urgency_factor)
      in min 1.0 risk)"

definition compute_congestion_risk :: "congestion_data \<Rightarrow> real" where
  "compute_congestion_risk congestion_data =
     (let congestion_index = dict_get (cd_congestion_index congestion_data) 0.0;
          wait_hours = dict_get (cd_wait_time_hours congestion_data) 0;
          wait_factor = min 1.0 (wait_hours / 72.0);
          vessel_count = dict_get (cd_vessel_count congestion_data) 0;
          capacity_factor = min 1.0 (real_of_int vessel_count / 50.0);
          risk = congestion_index * 0.5 + wait_factor * 0.3 + capacity_factor * 0.2
      in min 1.0 risk)"

definition compute_historical_risk :: "string \<Rightarrow> historical_data option \<Rightarrow> real" where
  "compute_historical_risk route_id historical_data =
     (case historical_data of
        None \<Rightarrow> 0.1
      | Some hist \<Rightarrow>
          (let disruption_rate = dict_get (hd_disruption_rate hist) 0.0;
               recent_disruptions = dict_get (hd_recent_disruptions hist) 0;
               recent_factor = min 1.0 (real_of_int recent_disruptions / 3.0);
               risk = disruption_rate * 0.7 + recent_factor * 0.3
           in min 1.0 risk))"

subsection \<open>The composite score\<close>

record risk_components =
  rc_weather :: real
  rc_sentiment :: real
  rc_congestion :: real
  rc_historical :: real

record risk_assessment =
  ra_route_id :: string
  ra_total_risk :: real
  ra_risk_level :: string
  ra_components :: risk_components
  ra_weights :: risk_components
  ra_timestamp :: int

text \<open>
  \<open>compute_route_risk\<close> reads the clock once for the \<open>timestamp\<close> entry; the reading is the
  parameter \<open>now\<close>.
\<close>

definition compute_route_risk ::
  "RiskScorer \<Rightarrow> int \<Rightarrow> string \<Rightarrow> weather_data \<Rightarrow> sentiment_data \<Rightarrow> congestion_data \<Rightarrow>
     historical_data option \<Rightarrow> risk_assessment" where
  "compute_route_risk self now route_id weather_data sentiment_data congestion_data historical_data =
     (let weather_risk = compute_weather_risk weather_data;
          sentiment_risk = compute_sentiment_risk sentiment_data;
          congestion_risk = compute_congestion_risk congestion_data;
          historical_risk = compute_historical_risk route_id historical_data;
          total_risk = weather_risk * weather_weight self
                     + sentiment_risk * sentiment_weight self
                     + congestion_risk * congestion_weight self
                     + historical_risk * historical_weight self;
          risk_level = (if total_risk \<ge> high_risk_threshold self then ''high''
                        else if total_risk \<ge> medium_risk_threshold self then ''medium''
                        else ''low'')
      in \<lparr> ra_route_id = route_id,
           ra_total_risk = total_risk,
           ra_risk_level = risk_level,
           ra_components = \<lparr> rc_weather = weather_risk, rc_sentiment = sentiment_risk,
                               rc_congestion = congestion_risk, rc_historical = historical_risk \<rparr>,
           ra_weights = \<lparr> rc_weather = weather_weight self, rc_sentiment = sentiment_weight self,
                            rc_congestion = congestion_weight self,
                            rc_historical = historical_weight self \<rparr>,
           ra_timestamp = now \<rparr>)"


subsection \<open>Cascading delays\<close>

text \<open>
  The entries of \<open>route_risks\<close> are dicts; \<open>predict_cascading_delays\<close> indexes them
  (\<open>route_risk['risk_level']\<close>), the forecaster below reads them with \<open>.get\<close>.  The key
  \<open>predicted_delay_hours\<close> is one the forecaster looks for in its input.
\<close>

record route_risk =
  rr_route_id :: "string option"
  rr_total_risk :: "real option"
  rr_risk_level :: "string option"
  rr_predicted_delay_hours :: "real option"

text \<open>
  The dependency graph is a dict from a route id to the list of its dependent route ids,
  kept as an association list and read with \<open>map_of\<close>; an absent graph is \<open>None\<close>.
  \<open>if network_graph:\<close> holds for a graph that is neither \<open>None\<close> nor empty.
\<close>

type_synonym network_graph = "(string \<times> string list) list"

definition graph_truthy :: "network_graph option \<Rightarrow> bool" where
  "graph_truthy g = (case g of None \<Rightarrow> False | Some gr \<Rightarrow> gr \<noteq> [])"

record delay_prediction =
  dp_route_id :: string
  dp_predicted_delay_hours :: real
  dp_base_delay :: real
  dp_cascading_delay :: real
  dp_risk_level :: string

text \<open>Lines 241--247: the base delay of one route.\<close>

definition base_delay_hours_of :: "route_risk \<Rightarrow> error + real" where
  "base_delay_hours_of route_risk =
     bind_err (dict_index (rr_risk_level route_risk)) (\<lambda>level.
       if level = ''high'' then
         bind_err (dict_index (rr_total_risk route_risk)) (\<lambda>total_risk.
           Inr (24 + (total_risk - 0.7) * 100))
       else if level = ''medium'' then
         bind_err (dict_index (rr_total_risk route_risk)) (\<lambda>total_risk.
           Inr (6 + (total_risk - 0.4) * 30))
       else Inr 0)"

text \<open>
  Lines 255--257: the loop over the dependents of a route.  The loop variable
  \<open>dependent_route\<close> is not used by the body, which adds 30\% of the route's own base
  delay at every turn.
\<close>

fun cascade_loop :: "real \<Rightarrow> string list \<Rightarrow> real \<Rightarrow> real" where
  "cascade_loop base_delay_hours [] cascading_delay = cascading_delay"
| "cascade_loop base_delay_hours (dependent_route # rest) cascading_delay =
     cascade_loop base_delay_hours rest (cascading_delay + base_delay_hours * 0.3)"

definition cascading_delay_of ::
  "network_graph option \<Rightarrow> route_risk \<Rightarrow> real \<Rightarrow> error + real" where
  "cascading_delay_of network_graph route_risk base_delay_hours =
     (if graph_truthy network_graph then
        bind_err (dict_index (rr_route_id route_risk)) (\<lambda>route_id.
          case map_of (the network_graph) route_id of
            None \<Rightarrow> Inr 0
          | Some dependents \<Rightarrow> Inr (cascade_loop base_delay_hours dependents 0))
      else Inr 0)"

text \<open>The body of the loop over \<open>route_risks\<close>: the dict appended to \<open>results\<close>.\<close>

definition predict_route :: "network_graph option \<Rightarrow> route_risk \<Rightarrow> error + delay_prediction" where
  "predict_route network_graph route_risk =
     bind_err (base_delay_hours_of route_risk) (\<lambda>base_delay_hours.
     bind_err (cascading_delay_of network_graph route_risk base_delay_hours) (\<lambda>cascading_delay.
     bind_err (dict_index (rr_route_id route_risk)) (\<lambda>route_id.
     bind_err (dict_index (rr_risk_level route_risk)) (\<lambda>level.
       Inr \<lparr> dp_route_id = route_id,
             dp_predicted_delay_hours = base_delay_hours + cascading_delay,
             dp_base_delay = base_delay_hours,
             dp_cascading_delay = cascading_delay,
             dp_risk_level = level \<rparr>))))"

fun predict_loop ::
  "network_graph option \<Rightarrow> route_risk list \<Rightarrow> delay_prediction list \<Rightarrow> error + delay_prediction list" where
  "predict_loop network_graph [] results = Inr results"
| "predict_loop network_graph (route_risk # rest) results =
     bind_err (predict_route network_graph route_risk) (\<lambda>p.
       predict_loop network_graph rest (results @ [p]))"

definition predict_cascading_delays ::
  "route_risk list \<Rightarrow> network_graph option \<Rightarrow> error + delay_prediction list" where
  "predict_cascading_delays route_risks network_graph = predict_loop network_graph route_risks []"

section \<open>The forecaster's cascade (backend/ml/time\_series\_forecaster.py)\<close>

record delay_forecast = delay_prediction +
  df_confidence :: real

definition forecast_base_delay :: "string \<Rightarrow> real \<Rightarrow> real" where
  "forecast_base_delay risk_level risk_score =
     (if risk_level = ''high'' then 24 + (risk_score - 0.7) * 120
      else if risk_level = ''medium'' then 6 + (risk_score - 0.4) * 40
      else risk_score * 10)"

text \<open>\<open>next((r for r in route_risks if r.get('route_id') == dep_route), None)\<close>\<close>

definition find_route_risk :: "route_risk list \<Rightarrow> string \<Rightarrow> route_risk option" where
  "find_route_risk route_risks dep_route =
     find (\<lambda>r. rr_route_id r = Some dep_route) route_risks"

text \<open>\<open>if dep_risk:\<close> holds for a dict with at least one key.\<close>

definition route_risk_truthy :: "route_risk option \<Rightarrow> bool" where
  "route_risk_truthy dep_risk =
     (case dep_risk of
        None \<Rightarrow> False
      | Some r \<Rightarrow> rr_route_id r \<noteq> None \<or> rr_total_risk r \<noteq> None \<or> rr_risk_level r \<noteq> None
                  \<or> rr_predicted_delay_hours r \<noteq> None)"

fun forecast_cascade_loop :: "route_risk list \<Rightarrow> string list \<Rightarrow> real \<Rightarrow> real" where
  "forecast_cascade_loop route_risks [] cascading_delay = cascading_delay"
| "forecast_cascade_loop route_risks (dep_route # rest) cascading_delay =
     (let dep_risk = find_route_risk route_risks dep_route in
      if route_risk_truthy dep_risk then
        (let dep_base = dict_get (rr_predicted_delay_hours (the dep_risk)) 0
         in forecast_cascade_loop route_risks rest (cascading_delay + dep_base * 0.3))
      else forecast_cascade_loop route_risks rest cascading_delay)"

definition forecast_route ::
  "route_risk list \<Rightarrow> network_graph option \<Rightarrow> route_risk \<Rightarrow> delay_forecast" where
  "forecast_route route_risks network_dependencies route_risk =
     (let risk_score = dict_get (rr_total_risk route_risk) 0;
          risk_level = dict_get (rr_risk_level route_risk) ''low'';
          base_delay = forecast_base_delay risk_level risk_score;
          cascading_delay =
            (if graph_truthy network_dependencies then
               (let route_id = dict_get (rr_route_id route_risk) '''' in
                case map_of (the network_dependencies) route_id of
                  None \<Rightarrow> 0
                | Some dependents \<Rightarrow> forecast_cascade_loop route_risks dependents 0)
             else 0);
          total_delay = base_delay + cascading_delay
      in \<lparr> dp_route_id = dict_get (rr_route_id route_risk) '''',
           dp_predicted_delay_hours = total_delay,
           dp_base_delay = base_delay,
           dp_cascading_delay = cascading_delay,
           dp_risk_level = risk_level,
           df_confidence = (if risk_score > 0.5 then 0.7 else 0.5) \<rparr>)"

text \<open>No step of the loop can raise, so the loop over \<open>route_risks\<close> is a \<open>map\<close>.\<close>

definition forecast_delay_cascade ::
  "route_risk list \<Rightarrow> network_graph option \<Rightarrow> delay_forecast list" where
  "forecast_delay_cascade route_risks network_dependencies =
     map (forecast_route route_risks network_dependencies) route_risks"

section \<open>The bottleneck merge of the weather (backend/main.py)\<close>

definition main_severity_map :: "string \<rightharpoonup> int" where
  "main_severity_map =
     [''none'' \<mapsto> 0, ''light'' \<mapsto> 1, ''moderate'' \<mapsto> 2, ''severe'' \<mapsto> 3, ''extreme'' \<mapsto> 4]"

definition weather_severity_value :: "string \<Rightarrow> int" where
  "weather_severity_value severity = dict_get (main_severity_map severity) 0"

text \<open>
  Lines 148--153 of \<open>get_routes\<close>.  Both records are indexed with \<open>['severity']\<close>, the
  origin's first.
\<close>

definition worst_weather :: "weather_data \<Rightarrow> weather_data \<Rightarrow> error + weather_data" where
  "worst_weather origin_weather dest_weather =
     bind_err (dict_index (wd_severity origin_weather)) (\<lambda>origin_severity.
     bind_err (dict_index (wd_severity dest_weather)) (\<lambda>dest_severity.
       Inr (if weather_severity_value origin_severity \<ge> weather_severity_value dest_severity
            then origin_weather else dest_weather)))"

section \<open>The ingestion caches (backend/data/pipelines)\<close>

subsection \<open>Cache entries and their validity\<close>

text \<open>
  A cache file holds \<open>{'timestamp': ..., 'data': ...}\<close>.  \<open>_load_cache\<close> answers \<open>None\<close> for
  a file that is missing or is not JSON.
\<close>

record 'a cache_entry =
  ce_timestamp :: "int option"
  ce_data :: "'a option"

datatype 'a file_content = Corrupt | Json 'a

definition load_cache :: "'a file_content option \<Rightarrow> 'a option" where
  "load_cache cache_file =
     (case cache_file of None \<Rightarrow> None | Some Corrupt \<Rightarrow> None | Some (Json v) \<Rightarrow> Some v)"

definition cache_entry_truthy :: "'a cache_entry option \<Rightarrow> bool" where
  "cache_entry_truthy cache_data =
     (case cache_data of
        None \<Rightarrow> False
      | Some c \<Rightarrow> ce_timestamp c \<noteq> None \<or> ce_data c \<noteq> None)"

text \<open>
  \<open>_is_cache_valid\<close> has the same body in both pipelines; \<open>cache_duration\<close> is the
  attribute \<open>self.cache_duration\<close> and \<open>now\<close> the reading of the clock.
\<close>

definition is_cache_valid :: "int \<Rightarrow> int \<Rightarrow> 'a cache_entry \<Rightarrow> bool" where
  "is_cache_valid cache_duration now cache_data =
     (case ce_timestamp cache_data of
        None \<Rightarrow> False
      | Some cache_time \<Rightarrow> now - cache_time < cache_duration)"

definition minutes :: "int \<Rightarrow> int" where
  "minutes n = n * 60 * 1000000"

definition days :: "int \<Rightarrow> int" where
  "days n = n * 24 * 60 * 60 * 1000000"

definition PortTrafficPipeline_cache_duration :: int where
  "PortTrafficPipeline_cache_duration = minutes 5"

definition WeatherPipeline_cache_duration :: int where
  "WeatherPipeline_cache_duration = minutes 10"

definition PortTrafficPipeline_is_cache_valid :: "int \<Rightarrow> 'a cache_entry \<Rightarrow> bool" where
  "PortTrafficPipeline_is_cache_valid now cache_data =
     is_cache_valid PortTrafficPipeline_cache_duration now cache_data"

definition WeatherPipeline_is_cache_valid :: "int \<Rightarrow> 'a cache_entry \<Rightarrow> bool" where
  "WeatherPipeline_is_cache_valid now cache_data =
     is_cache_valid WeatherPipeline_cache_duration now cache_data"

subsection \<open>The port traffic pipeline\<close>

text \<open>
  A traffic record has the keys written by \<open>DataSimulator.generate_port_traffic\<close> and the
  two keys that \<open>ingest_port_traffic\<close> adds; the simulator answers \<open>{}\<close> for a port it does
  not know.
\<close>

record traffic_data =
  td_port_id :: "string option"
  td_port_name :: "string option"
  td_vessel_count :: "int option"
  td_capacity :: "int option"
  td_wait_time_hours :: "real option"
  td_congestion_index :: "real option"
  td_timestamp :: "int option"
  td_latitude :: "real option"
  td_longitude :: "real option"
  td_previous_vessel_count :: "int option"
  td_trend :: "string option"

record history_entry =
  he_timestamp :: int
  he_vessel_count :: int
  he_wait_time_hours :: real
  he_congestion_index :: real

text \<open>
  The directory of the pipeline: the file \<open>{port_id}_traffic.json\<close> and the file
  \<open>{port_id}_history.json\<close> of every port, each absent or present.
\<close>

record port_store =
  traffic_files :: "string \<rightharpoonup> traffic_data cache_entry file_content"
  history_files :: "string \<rightharpoonup> history_entry list"

text \<open>Lines 53--56: the value served from the cache, if any.\<close>

definition cached_traffic ::
  "port_store \<Rightarrow> int \<Rightarrow> string \<Rightarrow> bool \<Rightarrow> error + traffic_data option" where
  "cached_traffic store now port_id force_refresh =
     (let cache_file = traffic_files store port_id in
      if \<not> force_refresh \<and> cache_file \<noteq> None then
        (let cache_data = load_cache cache_file in
         if cache_entry_truthy cache_data \<and> PortTrafficPipeline_is_cache_valid now (the cache_data)
         then bind_err (dict_index (ce_data (the cache_data))) (\<lambda>d. Inr (Some d))
         else Inr None)
      else Inr None)"

text \<open>Lines 62--66: the previous count and the trend are added when a previous entry loads.\<close>

definition add_historical_context ::
  "port_store \<Rightarrow> string \<Rightarrow> traffic_data \<Rightarrow> error + traffic_data" where
  "add_historical_context store port_id traffic_data =
     (let cache_file = traffic_files store port_id in
      if cache_file \<noteq> None then
        (let previous_data = load_cache cache_file in
         if cache_entry_truthy previous_data then
           bind_err (dict_index (ce_data (the previous_data))) (\<lambda>previous.
           bind_err (dict_index (td_vessel_count traffic_data)) (\<lambda>vessel_count.
             Inr (traffic_data
                   \<lparr> td_previous_vessel_count := Some (dict_get (td_vessel_count previous) 0),
                     td_trend := Some (if vessel_count > dict_get (td_vessel_count previous) 0
                                       then ''increasing'' else ''decreasing'') \<rparr>)))
         else Inr traffic_data)
      else Inr traffic_data)"

definition save_cache :: "port_store \<Rightarrow> int \<Rightarrow> string \<Rightarrow> traffic_data \<Rightarrow> port_store" where
  "save_cache store now port_id data =
     store \<lparr> traffic_files := (traffic_files store)
               (port_id \<mapsto> Json \<lparr> ce_timestamp = Some now, ce_data = Some data \<rparr>) \<rparr>"

text \<open>
  \<open>ingest_port_traffic\<close>.  The simulator draws random numbers; \<open>generate_port_traffic\<close> is
  the record it returns at this call.  The clock is read once when the cache is checked
  (\<open>now\<close>) and once when the new entry is stamped (\<open>now_saved\<close>).  The result is the
  returned record with the directory after the call.
\<close>

definition ingest_port_traffic ::
  "port_store \<Rightarrow> (string \<Rightarrow> traffic_data) \<Rightarrow> int \<Rightarrow> int \<Rightarrow> string \<Rightarrow> bool \<Rightarrow>
     error + traffic_data \<times> port_store" where
  "ingest_port_traffic store generate_port_traffic now now_saved port_id force_refresh =
     bind_err (cached_traffic store now port_id force_refresh) (\<lambda>hit.
       case hit of
         Some data \<Rightarrow> Inr (data, store)
       | None \<Rightarrow>
           bind_err (add_historical_context store port_id (generate_port_traffic port_id))
             (\<lambda>traffic_data. Inr (traffic_data, save_cache store now_saved port_id traffic_data)))"

text \<open>
  \<open>update_port_history\<close>.  The clock is read for the default of the \<open>timestamp\<close> key
  (\<open>now\<close>) and for the cut-off (\<open>now_cutoff\<close>).
\<close>

definition update_port_history ::
  "port_store \<Rightarrow> int \<Rightarrow> int \<Rightarrow> string \<Rightarrow> traffic_data \<Rightarrow> port_store" where
  "update_port_history store now now_cutoff port_id traffic_data =
     (let history = (case history_files store port_id of None \<Rightarrow> [] | Some h \<Rightarrow> h);
          history = history @
            [\<lparr> he_timestamp = dict_get (td_timestamp traffic_data) now,
               he_vessel_count = dict_get (td_vessel_count traffic_data) 0,
               he_wait_time_hours = dict_get (td_wait_time_hours traffic_data) 0,
               he_congestion_index = dict_get (td_congestion_index traffic_data) 0 \<rparr>];
          cutoff_time = now_cutoff - days 7;
          history = filter (\<lambda>entry. he_timestamp entry \<ge> cutoff_time) history
      in store \<lparr> history_files := (history_files store)(port_id \<mapsto> history) \<rparr>)"

section \<open>Notions used to state the properties\<close>

text \<open>
  The dependents that the graph lists for a route: \<open>network_graph[route_id]\<close> when the graph
  is given and has the key, and none otherwise.
\<close>

definition dependents_of :: "network_graph option \<Rightarrow> string \<Rightarrow> string list" where
  "dependents_of network_graph route_id =
     (case network_graph of
        None \<Rightarrow> []
      | Some graph \<Rightarrow> (case map_of graph route_id of None \<Rightarrow> [] | Some dependents \<Rightarrow> dependents))"

text \<open>
  The delay that the input list supplies for a dependent: the \<open>predicted_delay_hours\<close>
  entry of the first record with that route id, and 0 when there is no such record or no
  such entry.
\<close>

definition supplied_delay :: "route_risk list \<Rightarrow> string \<Rightarrow> real" where
  "supplied_delay route_risks dep_route =
     (case find_route_risk route_risks dep_route of
        None \<Rightarrow> 0
      | Some dep_risk \<Rightarrow> dict_get (rr_predicted_delay_hours dep_risk) 0)"

text \<open>What \<open>predict_cascading_delays\<close> returns for one route.\<close>

definition predicted_as_computed ::
  "network_graph option \<Rightarrow> route_risk \<Rightarrow> delay_prediction \<Rightarrow> bool" where
  "predicted_as_computed network_graph route_risk p =
     (rr_route_id route_risk = Some (dp_route_id p)
      \<and> dp_cascading_delay p
          = 0.3 * dp_base_delay p * real (length (dependents_of network_graph (dp_route_id p)))
      \<and> dp_predicted_delay_hours p = dp_base_delay p + dp_cascading_delay p)"

text \<open>What \<open>forecast_delay_cascade\<close> returns for one route.\<close>

definition forecast_as_computed ::
  "route_risk list \<Rightarrow> network_graph option \<Rightarrow> route_risk \<Rightarrow> delay_forecast \<Rightarrow> bool" where
  "forecast_as_computed route_risks network_dependencies route_risk f =
     (dp_route_id f = dict_get (rr_route_id route_risk) ''''
      \<and> dp_cascading_delay f
          = (\<Sum>dep\<leftarrow>dependents_of network_dependencies (dp_route_id f).
               0.3 * supplied_delay route_risks dep)
      \<and> dp_predicted_delay_hours f = dp_base_delay f + dp_cascading_delay f)"

subsection \<open>Concrete inputs\<close>

definition default_scorer :: RiskScorer where
  "default_scorer =
     \<lparr> weather_weight = 0.35, sentiment_weight = 0.30, congestion_weight = 0.25,
       historical_weight = 0.10, high_risk_threshold = 0.7, medium_risk_threshold = 0.4 \<rparr>"

definition sample_alert :: "string \<Rightarrow> string \<Rightarrow> real \<Rightarrow> weather_data" where
  "sample_alert severity type duration =
     \<lparr> wd_weather_zone = Some ''Asia'', wd_type = Some type, wd_severity = Some severity,
       wd_duration_hours = Some duration, wd_affected_port_id = Some ''SHG'',
       wd_affected_port_name = Some ''Shanghai'', wd_latitude = Some 31.23,
       wd_longitude = Some 121.47, wd_timestamp = Some 0 \<rparr>"

definition sample_sentiment :: "real \<Rightarrow> int \<Rightarrow> int \<Rightarrow> sentiment_data" where
  "sample_sentiment score articles keywords =
     \<lparr> sd_sentiment_score = Some score, sd_article_count = Some articles,
       sd_urgency_keywords = Some keywords \<rparr>"

definition sample_congestion :: "real \<Rightarrow> real \<Rightarrow> int \<Rightarrow> congestion_data" where
  "sample_congestion index wait vessels =
     \<lparr> cd_congestion_index = Some index, cd_wait_time_hours = Some wait,
       cd_vessel_count = Some vessels \<rparr>"


definition sample_route_risk :: "string \<Rightarrow> string \<Rightarrow> real \<Rightarrow> route_risk" where
  "sample_route_risk route_id level risk =
     \<lparr> rr_route_id = Some route_id, rr_total_risk = Some risk, rr_risk_level = Some level,
       rr_predicted_delay_hours = None \<rparr>"

definition sample_traffic :: "string \<Rightarrow> int \<Rightarrow> int \<Rightarrow> traffic_data" where
  "sample_traffic port_id vessel_count stamp =
     \<lparr> td_port_id = Some port_id, td_port_name = Some ''Los Angeles'',
       td_vessel_count = Some vessel_count, td_capacity = Some 100,
       td_wait_time_hours = Some 21.5, td_congestion_index = Some 0.45,
       td_timestamp = Some stamp, td_latitude = Some 33.75, td_longitude = Some (-118.25),
       td_previous_vessel_count = None, td_trend = None \<rparr>"

definition empty_store :: port_store where
  "empty_store = \<lparr> traffic_files = Map.empty, history_files = Map.empty \<rparr>"

definition store_with_entry :: "string \<Rightarrow> int \<Rightarrow> traffic_data \<Rightarrow> port_store" where
  "store_with_entry port_id stamp data =
     \<lparr> traffic_files = [port_id \<mapsto> Json \<lparr> ce_timestamp = Some stamp, ce_data = Some data \<rparr>],
       history_files = Map.empty \<rparr>"

section \<open>Basic facts about the conventions\<close>

lemma bind_err_Inl: "bind_err (Inl e) f = Inl e"
  by (simp add: bind_err_def)

lemma bind_err_Inr: "bind_err (Inr x) f = f x"
  by (simp add: bind_err_def)

lemma dict_get_None: "dict_get None d = d"
  by (simp add: dict_get_def)

lemma dict_get_Some: "dict_get (Some x) d = x"
  by (simp add: dict_get_def)

lemma dict_index_None: "dict_index None = Inl KeyError"
  by (simp add: dict_index_def)

lemma dict_index_Some: "dict_index (Some x) = Inr x"
  by (simp add: dict_index_def)

section \<open>Construction of the risk scorer\<close>









lemma init_thresholds:
  assumes "RiskScorer_init w s c h = Inr self"
  shows "high_risk_threshold self = 0.7 \<and> medium_risk_threshold self = 0.4"
  using assms by (auto simp add: RiskScorer_init_def Let_def split: if_splits)

section \<open>The component scorers\<close>














section \<open>The composite score and the risk level\<close>

lemma total_risk_unfold:
  "ra_total_risk (compute_route_risk self now route_id wd sd cd hist) =
     compute_weather_risk wd * weather_weight self
     + compute_sentiment_risk sd * sentiment_weight self
     + compute_congestion_risk cd * congestion_weight self
     + compute_historical_risk route_id hist * historical_weight self"
  by (simp add: compute_route_risk_def Let_def)

lemma risk_level_unfold:
  "ra_risk_level (compute_route_risk self now route_id wd sd cd hist) =
     (if ra_total_risk (compute_route_risk self now route_id wd sd cd hist)
           \<ge> high_risk_threshold self
      then ''high''
      else if ra_total_risk (compute_route_risk self now route_id wd sd cd hist)
                \<ge> medium_risk_threshold self
      then ''medium'' else ''low'')"
  by (simp add: compute_route_risk_def Let_def)

lemmas sample_eval = total_risk_unfold default_scorer_def sample_alert_def sample_sentiment_def
  sample_congestion_def compute_weather_risk_def compute_sentiment_risk_def
  compute_congestion_risk_def compute_historical_risk_def severity_map_def type_multipliers_def
  dict_get_def Let_def



text \<open>
  Claim C7: the risk level of the assessment is \<open>high\<close> for a total of 0.7 or more,
  \<open>medium\<close> for a total from 0.4 up to but excluding 0.7, and \<open>low\<close> for a total below 0.4.
  The thresholds are the ones every constructed scorer carries.
\<close>

theorem risk_level_boundaries:
  assumes "RiskScorer_init w s c h = Inr self"
  shows "(0.7 \<le> ra_total_risk (compute_route_risk self now route_id wd sd cd hist)
            \<longrightarrow> ra_risk_level (compute_route_risk self now route_id wd sd cd hist) = ''high'')
       \<and> (0.4 \<le> ra_total_risk (compute_route_risk self now route_id wd sd cd hist)
            \<and> ra_total_risk (compute_route_risk self now route_id wd sd cd hist) < 0.7
            \<longrightarrow> ra_risk_level (compute_route_risk self now route_id wd sd cd hist) = ''medium'')
       \<and> (ra_total_risk (compute_route_risk self now route_id wd sd cd hist) < 0.4
            \<longrightarrow> ra_risk_level (compute_route_risk self now route_id wd sd cd hist) = ''low'')"
  using init_thresholds [OF assms]
  by (simp add: risk_level_unfold [of self now route_id wd sd cd hist])

text \<open>Three inputs of the default scorer whose totals are exactly 0.7, 0.4 and 0.39999.\<close>

theorem risk_level_boundaries_witness:
  "ra_total_risk (compute_route_risk default_scorer 0 ''LAX-SHG''
        (sample_alert ''extreme'' ''storm'' 48) (sample_sentiment (-1) 10 5)
        (sample_congestion 0.32 0 0) None) = 0.7
   \<and> ra_risk_level (compute_route_risk default_scorer 0 ''LAX-SHG''
        (sample_alert ''extreme'' ''storm'' 48) (sample_sentiment (-1) 10 5)
        (sample_congestion 0.32 0 0) None) = ''high''
   \<and> ra_total_risk (compute_route_risk default_scorer 0 ''LAX-SHG''
        (sample_alert ''extreme'' ''storm'' 48) (sample_sentiment 1 10 5)
        (sample_congestion 0.32 0 0) None) = 0.4
   \<and> ra_risk_level (compute_route_risk default_scorer 0 ''LAX-SHG''
        (sample_alert ''extreme'' ''storm'' 48) (sample_sentiment 1 10 5)
        (sample_congestion 0.32 0 0) None) = ''medium''
   \<and> ra_total_risk (compute_route_risk default_scorer 0 ''LAX-SHG''
        (sample_alert ''extreme'' ''storm'' 48) (sample_sentiment 1 10 5)
        (sample_congestion 0.31992 0 0) None) = 0.39999
   \<and> ra_risk_level (compute_route_risk default_scorer 0 ''LAX-SHG''
        (sample_alert ''extreme'' ''storm'' 48) (sample_sentiment 1 10 5)
        (sample_congestion 0.31992 0 0) None) = ''low''"
proof -
  have d: "RiskScorer_init 0.35 0.30 0.25 0.10 = Inr default_scorer"
    by (simp add: RiskScorer_init_def default_scorer_def)
  have t1: "ra_total_risk (compute_route_risk default_scorer 0 ''LAX-SHG''
        (sample_alert ''extreme'' ''storm'' 48) (sample_sentiment (-1) 10 5)
        (sample_congestion 0.32 0 0) None) = 0.7"
    by (simp add: sample_eval)
  have t2: "ra_total_risk (compute_route_risk default_scorer 0 ''LAX-SHG''
        (sample_alert ''extreme'' ''storm'' 48) (sample_sentiment 1 10 5)
        (sample_congestion 0.32 0 0) None) = 0.4"
    by (simp add: sample_eval)
  have t3: "ra_total_risk (compute_route_risk default_scorer 0 ''LAX-SHG''
        (sample_alert ''extreme'' ''storm'' 48) (sample_sentiment 1 10 5)
        (sample_congestion 0.31992 0 0) None) = 0.39999"
    by (simp add: sample_eval)
  show ?thesis
    using t1 t2 t3
      risk_level_boundaries [OF d, of 0 "''LAX-SHG''" "sample_alert ''extreme'' ''storm'' 48"
        "sample_sentiment (-1) 10 5" "sample_congestion 0.32 0 0" None]
      risk_level_boundaries [OF d, of 0 "''LAX-SHG''" "sample_alert ''extreme'' ''storm'' 48"
        "sample_sentiment 1 10 5" "sample_congestion 0.32 0 0" None]
      risk_level_boundaries [OF d, of 0 "''LAX-SHG''" "sample_alert ''extreme'' ''storm'' 48"
        "sample_sentiment 1 10 5" "sample_congestion 0.31992 0 0" None]
    by simp
qed

section \<open>Cascading delays\<close>

lemma cascade_loop_eq:
  "cascade_loop base dependents acc = acc + 0.3 * base * real (length dependents)"
  by (induction dependents arbitrary: acc) (simp_all add: algebra_simps)

lemma cascading_delay_of_eq:
  assumes "rr_route_id route_risk = Some route_id"
  shows "cascading_delay_of network_graph route_risk base =
           Inr (0.3 * base * real (length (dependents_of network_graph route_id)))"
  using assms
  by (auto simp add: cascading_delay_of_def graph_truthy_def dependents_of_def dict_index_def
      bind_err_def cascade_loop_eq split: option.splits)

lemma base_delay_hours_of_total:
  assumes "rr_risk_level route_risk \<noteq> None" and "rr_total_risk route_risk \<noteq> None"
  shows "\<exists>base. base_delay_hours_of route_risk = Inr base"
  using assms by (auto simp add: base_delay_hours_of_def dict_index_def bind_err_def)

lemma predict_route_ok:
  assumes "rr_route_id route_risk \<noteq> None" and "rr_risk_level route_risk \<noteq> None"
    and "rr_total_risk route_risk \<noteq> None"
  shows "\<exists>p. predict_route network_graph route_risk = Inr p
             \<and> predicted_as_computed network_graph route_risk p"
proof -
  obtain route_id where rid: "rr_route_id route_risk = Some route_id"
    using assms(1) by blast
  obtain level where lvl: "rr_risk_level route_risk = Some level"
    using assms(2) by blast
  obtain base where base: "base_delay_hours_of route_risk = Inr base"
    using base_delay_hours_of_total [OF assms(2,3)] by blast
  show ?thesis
    by (simp add: predict_route_def base cascading_delay_of_eq [OF rid] rid lvl dict_index_def
        bind_err_def predicted_as_computed_def)
qed

lemma predict_loop_ok:
  assumes "\<forall>r \<in> set route_risks.
             rr_route_id r \<noteq> None \<and> rr_risk_level r \<noteq> None \<and> rr_total_risk r \<noteq> None"
  shows "\<exists>ps. predict_loop network_graph route_risks results = Inr (results @ ps)
              \<and> list_all2 (predicted_as_computed network_graph) route_risks ps"
  using assms
proof (induction route_risks arbitrary: results)
  case Nil
  then show ?case by simp
next
  case (Cons r rest)
  obtain p where p: "predict_route network_graph r = Inr p"
      "predicted_as_computed network_graph r p"
    using predict_route_ok [of r network_graph] Cons.prems by auto
  obtain ps where ps: "predict_loop network_graph rest (results @ [p]) = Inr ((results @ [p]) @ ps)"
      "list_all2 (predicted_as_computed network_graph) rest ps"
    using Cons.IH [of "results @ [p]"] Cons.prems by auto
  have "predict_loop network_graph (r # rest) results = Inr (results @ p # ps)"
    using p(1) ps(1) by (simp add: bind_err_def)
  moreover have "list_all2 (predicted_as_computed network_graph) (r # rest) (p # ps)"
    using p(2) ps(2) by simp
  ultimately show ?case by blast
qed

text \<open>
  The forecaster's loop over the dependents: it adds 30\% of the delay that the input list
  supplies for each of them.
\<close>

lemma route_risk_truthy_found:
  assumes "find_route_risk route_risks dep_route = Some r"
  shows "route_risk_truthy (Some r)"
proof -
  have "rr_route_id r = Some dep_route"
    using assms by (auto simp add: find_route_risk_def find_Some_iff)
  then show ?thesis by (simp add: route_risk_truthy_def)
qed

lemma forecast_cascade_loop_eq:
  "forecast_cascade_loop route_risks dependents acc =
     acc + (\<Sum>dep\<leftarrow>dependents. 0.3 * supplied_delay route_risks dep)"
proof (induction dependents arbitrary: acc)
  case Nil
  then show ?case by simp
next
  case (Cons dep rest)
  show ?case
  proof (cases "find_route_risk route_risks dep")
    case None
    then show ?thesis
      using Cons.IH [of acc]
      by (simp add: route_risk_truthy_def supplied_delay_def Let_def)
  next
    case (Some r)
    then show ?thesis
      using Cons.IH [of "acc + dict_get (rr_predicted_delay_hours r) 0 * 0.3"]
        route_risk_truthy_found [OF Some]
      by (simp add: supplied_delay_def Let_def)
  qed
qed

lemma forecast_route_ok:
  "forecast_as_computed route_risks g r (forecast_route route_risks g r)"
  by (auto simp add: forecast_as_computed_def forecast_route_def Let_def graph_truthy_def
      dependents_of_def forecast_cascade_loop_eq split: option.splits)

lemma forecast_delay_cascade_ok:
  "list_all2 (forecast_as_computed route_risks g) route_risks (forecast_delay_cascade route_risks g)"
  by (simp add: forecast_delay_cascade_def list_all2_map2 list_all2_same forecast_route_ok)

text \<open>
  Claim C1 says that the cascading delay of a route is the sum, over its dependents, of 30\%
  of the dependent's own base delay.  Take a route \<open>LAX-SHG\<close> at high risk 0.8 whose only
  dependent is \<open>SHG-SGP\<close> at medium risk 0.5.  \<open>predict_cascading_delays\<close> gives the two
  routes the base delays 34 and 9 and gives \<open>LAX-SHG\<close> the cascading delay 10.2, which is
  30\% of its own 34 and not 30\% of the dependent's 9.  \<open>forecast_delay_cascade\<close> gives
  them the base delays 36 and 10 and gives \<open>LAX-SHG\<close> the cascading delay 0, not 30\% of
  10: it reads the dependent's delay from the input record, which has none.
\<close>

theorem cascade_is_not_dependent_base_delay:
  "predict_cascading_delays
      [sample_route_risk ''LAX-SHG'' ''high'' 0.8, sample_route_risk ''SHG-SGP'' ''medium'' 0.5]
      (Some [(''LAX-SHG'', [''SHG-SGP''])])
     = Inr [\<lparr> dp_route_id = ''LAX-SHG'', dp_predicted_delay_hours = 221 / 5, dp_base_delay = 34,
              dp_cascading_delay = 51 / 5, dp_risk_level = ''high'' \<rparr>,
            \<lparr> dp_route_id = ''SHG-SGP'', dp_predicted_delay_hours = 9, dp_base_delay = 9,
              dp_cascading_delay = 0, dp_risk_level = ''medium'' \<rparr>]
   \<and> (51 / 5 :: real) \<noteq> 0.3 * 9
   \<and> forecast_delay_cascade
      [sample_route_risk ''LAX-SHG'' ''high'' 0.8, sample_route_risk ''SHG-SGP'' ''medium'' 0.5]
      (Some [(''LAX-SHG'', [''SHG-SGP''])])
     = [\<lparr> dp_route_id = ''LAX-SHG'', dp_predicted_delay_hours = 36, dp_base_delay = 36,
          dp_cascading_delay = 0, dp_risk_level = ''high'', df_confidence = 0.7 \<rparr>,
        \<lparr> dp_route_id = ''SHG-SGP'', dp_predicted_delay_hours = 10, dp_base_delay = 10,
          dp_cascading_delay = 0, dp_risk_level = ''medium'', df_confidence = 0.5 \<rparr>]
   \<and> (0 :: real) \<noteq> 0.3 * 10"
  by (simp add: predict_cascading_delays_def predict_route_def base_delay_hours_of_def
      cascading_delay_of_def graph_truthy_def forecast_delay_cascade_def forecast_route_def
      forecast_base_delay_def find_route_risk_def route_risk_truthy_def sample_route_risk_def
      dict_index_def dict_get_def bind_err_def Let_def del: not_None_eq)

text \<open>
  Claim C1 as amended.  For a list of risk assessments that each carry a route id, a
  risk level and a total risk, \<open>predict_cascading_delays\<close> returns, for every route, a
  cascading delay of 30\% of that route's own base delay for each dependent that the graph
  lists for it, so a multiple of the upstream route's own delay, and none for a route that
  the graph does not list.  In its result and in the result of \<open>forecast_delay_cascade\<close>
  the total delay of every route is its base delay plus its cascading delay.
\<close>

theorem cascade_delay_as_computed:
  assumes "\<forall>r \<in> set route_risks.
             rr_route_id r \<noteq> None \<and> rr_risk_level r \<noteq> None \<and> rr_total_risk r \<noteq> None"
  shows "(\<exists>ps. predict_cascading_delays route_risks network_graph = Inr ps
            \<and> list_all2
                (\<lambda>route_risk p.
                   rr_route_id route_risk = Some (dp_route_id p)
                   \<and> dp_cascading_delay p
                       = 0.3 * dp_base_delay p
                           * real (length (dependents_of network_graph (dp_route_id p)))
                   \<and> dp_predicted_delay_hours p = dp_base_delay p + dp_cascading_delay p)
                route_risks ps)
       \<and> list_all2
           (\<lambda>route_risk f. dp_predicted_delay_hours f = dp_base_delay f + dp_cascading_delay f)
           route_risks (forecast_delay_cascade route_risks network_graph)"
proof -
  have "list_all2
           (\<lambda>route_risk f. dp_predicted_delay_hours f = dp_base_delay f + dp_cascading_delay f)
           route_risks (forecast_delay_cascade route_risks network_graph)"
    using forecast_delay_cascade_ok [of route_risks network_graph]
    by (rule list_all2_mono) (simp add: forecast_as_computed_def)
  then show ?thesis
    using predict_loop_ok [OF assms, of network_graph "[]"]
    unfolding predict_cascading_delays_def predicted_as_computed_def
    by simp
qed

theorem cascade_delay_as_computed_witness:
  "(\<exists>ps. predict_cascading_delays
           [sample_route_risk ''LAX-SHG'' ''high'' 0.8, sample_route_risk ''SHG-SGP'' ''medium'' 0.5]
           (Some [(''LAX-SHG'', [''SHG-SGP''])]) = Inr ps
        \<and> list_all2
            (\<lambda>route_risk p.
               rr_route_id route_risk = Some (dp_route_id p)
               \<and> dp_cascading_delay p
                   = 0.3 * dp_base_delay p
                       * real (length (dependents_of (Some [(''LAX-SHG'', [''SHG-SGP''])])
                                         (dp_route_id p)))
               \<and> dp_predicted_delay_hours p = dp_base_delay p + dp_cascading_delay p)
            [sample_route_risk ''LAX-SHG'' ''high'' 0.8,
             sample_route_risk ''SHG-SGP'' ''medium'' 0.5] ps)
   \<and> list_all2
       (\<lambda>route_risk f. dp_predicted_delay_hours f = dp_base_delay f + dp_cascading_delay f)
       [sample_route_risk ''LAX-SHG'' ''high'' 0.8, sample_route_risk ''SHG-SGP'' ''medium'' 0.5]
       (forecast_delay_cascade
          [sample_route_risk ''LAX-SHG'' ''high'' 0.8,
           sample_route_risk ''SHG-SGP'' ''medium'' 0.5]
          (Some [(''LAX-SHG'', [''SHG-SGP''])]))"
proof -
  have wf: "\<forall>r \<in> set [sample_route_risk ''LAX-SHG'' ''high'' 0.8,
                       sample_route_risk ''SHG-SGP'' ''medium'' 0.5].
              rr_route_id r \<noteq> None \<and> rr_risk_level r \<noteq> None \<and> rr_total_risk r \<noteq> None"
    by (simp add: sample_route_risk_def del: not_None_eq)
  show ?thesis
    by (rule cascade_delay_as_computed [OF wf])
qed

section \<open>The bottleneck merge of the weather\<close>

lemma weather_severity_values:
  "weather_severity_value ''none'' = 0" "weather_severity_value ''light'' = 1"
  "weather_severity_value ''moderate'' = 2" "weather_severity_value ''severe'' = 3"
  "weather_severity_value ''extreme'' = 4"
  by (simp_all add: weather_severity_value_def main_severity_map_def dict_get_def)

text \<open>
  Claim C6: the severities are ordered none, light, moderate, severe, extreme; of two
  endpoint records that each carry a severity the merge selects the origin's when its
  severity is at least the destination's, so also on a tie, and the destination's
  otherwise; with a moderate origin and an extreme destination it selects the
  destination's record.
\<close>

theorem worst_weather_is_max_severity:
  assumes "wd_severity origin_weather = Some so" and "wd_severity dest_weather = Some sd"
  shows "weather_severity_value ''none'' < weather_severity_value ''light''
       \<and> weather_severity_value ''light'' < weather_severity_value ''moderate''
       \<and> weather_severity_value ''moderate'' < weather_severity_value ''severe''
       \<and> weather_severity_value ''severe'' < weather_severity_value ''extreme''
       \<and> worst_weather origin_weather dest_weather =
           Inr (if weather_severity_value so \<ge> weather_severity_value sd
                then origin_weather else dest_weather)
       \<and> (so = ''moderate'' \<and> sd = ''extreme''
            \<longrightarrow> worst_weather origin_weather dest_weather = Inr dest_weather)"
  using assms
  by (simp add: worst_weather_def dict_index_Some bind_err_Inr weather_severity_values)

theorem worst_weather_is_max_severity_witness:
  "worst_weather (sample_alert ''moderate'' ''storm'' 12) (sample_alert ''extreme'' ''typhoon'' 30)
     = Inr (sample_alert ''extreme'' ''typhoon'' 30)
   \<and> worst_weather (sample_alert ''severe'' ''storm'' 12) (sample_alert ''severe'' ''typhoon'' 30)
     = Inr (sample_alert ''severe'' ''storm'' 12)"
  using worst_weather_is_max_severity [of "sample_alert ''moderate'' ''storm'' 12" "''moderate''"
            "sample_alert ''extreme'' ''typhoon'' 30" "''extreme''"]
        worst_weather_is_max_severity [of "sample_alert ''severe'' ''storm'' 12" "''severe''"
            "sample_alert ''severe'' ''typhoon'' 30" "''severe''"]
  by (simp add: sample_alert_def)

section \<open>The ingestion caches\<close>

lemma cache_durations:
  "PortTrafficPipeline_cache_duration = 300000000" "WeatherPipeline_cache_duration = 600000000"
  by (simp_all add: PortTrafficPipeline_cache_duration_def WeatherPipeline_cache_duration_def
      minutes_def)

text \<open>
  Claim C8: for a cache entry created at time \<open>c\<close>, the validity check of either pipeline
  at time \<open>t\<close> answers true exactly when \<open>t - c\<close> is less than the pipeline's time to live;
  so the entry is valid at every instant from \<open>c\<close> up to but excluding \<open>c\<close> plus the time to
  live, and at no instant after \<open>c\<close> plus the time to live.
\<close>

theorem cache_validity_monotonic:
  assumes "ce_timestamp entry = Some c"
  shows "(PortTrafficPipeline_is_cache_valid t entry
            \<longleftrightarrow> t - c < PortTrafficPipeline_cache_duration)
       \<and> (WeatherPipeline_is_cache_valid t entry \<longleftrightarrow> t - c < WeatherPipeline_cache_duration)
       \<and> (\<forall>t''. c \<le> t'' \<and> t'' < c + PortTrafficPipeline_cache_duration
              \<longrightarrow> PortTrafficPipeline_is_cache_valid t'' entry)
       \<and> (\<forall>t'. t' > c + PortTrafficPipeline_cache_duration
              \<longrightarrow> \<not> PortTrafficPipeline_is_cache_valid t' entry)
       \<and> (\<forall>t''. c \<le> t'' \<and> t'' < c + WeatherPipeline_cache_duration
              \<longrightarrow> WeatherPipeline_is_cache_valid t'' entry)
       \<and> (\<forall>t'. t' > c + WeatherPipeline_cache_duration
              \<longrightarrow> \<not> WeatherPipeline_is_cache_valid t' entry)"
  using assms
  by (auto simp add: PortTrafficPipeline_is_cache_valid_def WeatherPipeline_is_cache_valid_def
      is_cache_valid_def)

text \<open>
  An entry created at second 1000: valid one microsecond before its time to live is over
  and invalid one microsecond after, for the five minutes of the traffic pipeline and the
  ten minutes of the weather pipeline.
\<close>

theorem cache_validity_monotonic_witness:
  "PortTrafficPipeline_is_cache_valid 1299999999
      \<lparr> ce_timestamp = Some 1000000000, ce_data = Some ''v'' \<rparr>
   \<and> \<not> PortTrafficPipeline_is_cache_valid 1300000001
      \<lparr> ce_timestamp = Some 1000000000, ce_data = Some ''v'' \<rparr>
   \<and> WeatherPipeline_is_cache_valid 1599999999
      \<lparr> ce_timestamp = Some 1000000000, ce_data = Some ''v'' \<rparr>
   \<and> \<not> WeatherPipeline_is_cache_valid 1600000001
      \<lparr> ce_timestamp = Some 1000000000, ce_data = Some ''v'' \<rparr>"
  using cache_validity_monotonic
     [of "\<lparr> ce_timestamp = Some 1000000000, ce_data = Some ''v'' \<rparr>" 1000000000 0]
  by (simp add: cache_durations)

subsection \<open>The history of a port\<close>

text \<open>Whatever its arguments, \<open>ingest_port_traffic\<close> leaves every history file as it was.\<close>

lemma ingest_keeps_history:
  "(case ingest_port_traffic store gen now now_saved port_id force_refresh of
      Inl e \<Rightarrow> True
    | Inr (data, store') \<Rightarrow> history_files store' = history_files store)"
  by (simp add: ingest_port_traffic_def bind_err_def save_cache_def
        split: sum.splits option.splits)

text \<open>
  \<open>update_port_history\<close> does write the history file of the port, and what it writes holds
  no entry older than seven days.
\<close>

lemma update_port_history_window:
  "\<exists>h. history_files (update_port_history store now now_cutoff port_id traffic_data) port_id
          = Some h
       \<and> (\<forall>entry \<in> set h. he_timestamp entry \<ge> now_cutoff - days 7)"
  by (auto simp add: update_port_history_def Let_def)

text \<open>
  Claim C3 says that every call of \<open>ingest_port_traffic\<close> that generates a fresh value also
  appends it to the history log of the port.  On an empty directory, the forced call for
  \<open>LAX\<close> generates a value, returns it and writes the cache file, and the directory holds no
  history file afterwards: \<open>ingest_port_traffic\<close> never calls \<open>update_port_history\<close>.
\<close>

theorem ingest_writes_no_history:
  "ingest_port_traffic empty_store (\<lambda>p. sample_traffic p 48 1000) 1000 1001 ''LAX'' True
     = Inr (sample_traffic ''LAX'' 48 1000,
            \<lparr> traffic_files =
                 [''LAX'' \<mapsto> Json \<lparr> ce_timestamp = Some 1001,
                                      ce_data = Some (sample_traffic ''LAX'' 48 1000) \<rparr>],
              history_files = Map.empty \<rparr>)"
  by (simp add: ingest_port_traffic_def cached_traffic_def add_historical_context_def
      save_cache_def empty_store_def bind_err_def Let_def)

subsection \<open>The trend of a regenerated value\<close>

text \<open>
  Claim C10: when \<open>ingest_port_traffic\<close> regenerates a value (the refresh is forced or the
  cached entry is no longer valid) while the cache file holds a previous value, and the
  generated record has a vessel count, the call returns a record whose trend is
  \<open>increasing\<close> exactly when the new vessel count is greater than the previous one (0 when
  the previous value has none) and \<open>decreasing\<close> otherwise; it is never \<open>stable\<close>.
\<close>

theorem regenerated_trend:
  assumes "traffic_files store port_id
             = Some (Json \<lparr> ce_timestamp = stamp, ce_data = Some previous \<rparr>)"
    and "force_refresh \<or> \<not> PortTrafficPipeline_is_cache_valid now
            \<lparr> ce_timestamp = stamp, ce_data = Some previous \<rparr>"
    and "td_vessel_count (generate_port_traffic port_id) = Some vessel_count"
  shows "\<exists>data store'.
           ingest_port_traffic store generate_port_traffic now now_saved port_id force_refresh
             = Inr (data, store')
           \<and> td_trend data =
               Some (if vessel_count > dict_get (td_vessel_count previous) 0
                     then ''increasing'' else ''decreasing'')
           \<and> (td_trend data = Some ''increasing''
                \<longleftrightarrow> vessel_count > dict_get (td_vessel_count previous) 0)
           \<and> td_trend data \<noteq> Some ''stable''"
  using assms
  by (auto simp add: ingest_port_traffic_def cached_traffic_def add_historical_context_def
      load_cache_def cache_entry_truthy_def dict_index_def bind_err_def Let_def)

text \<open>
  A forced refresh that finds the same vessel count as before reports \<open>decreasing\<close>; a
  refresh after the entry has expired that finds a greater count reports \<open>increasing\<close>.
\<close>

theorem regenerated_trend_witness:
  "(\<exists>data store'.
      ingest_port_traffic (store_with_entry ''LAX'' 0 (sample_traffic ''LAX'' 48 0))
        (\<lambda>p. sample_traffic p 48 1000) 1000 1001 ''LAX'' True = Inr (data, store')
      \<and> td_trend data = Some ''decreasing'')
   \<and> (\<exists>data store'.
      ingest_port_traffic (store_with_entry ''LAX'' 0 (sample_traffic ''LAX'' 48 0))
        (\<lambda>p. sample_traffic p 50 400000000) 400000000 400000001 ''LAX'' False
        = Inr (data, store')
      \<and> td_trend data = Some ''increasing'')"
proof -
  have cached: "traffic_files (store_with_entry ''LAX'' 0 (sample_traffic ''LAX'' 48 0)) ''LAX''
                = Some (Json \<lparr> ce_timestamp = Some 0,
                                ce_data = Some (sample_traffic ''LAX'' 48 0) \<rparr>)"
    by (simp add: store_with_entry_def)
  have forced: "True \<or> \<not> PortTrafficPipeline_is_cache_valid 1000
            \<lparr> ce_timestamp = Some 0, ce_data = Some (sample_traffic ''LAX'' 48 0) \<rparr>"
    by simp
  have expired: "False \<or> \<not> PortTrafficPipeline_is_cache_valid 400000000
            \<lparr> ce_timestamp = Some 0, ce_data = Some (sample_traffic ''LAX'' 48 0) \<rparr>"
    by (simp add: PortTrafficPipeline_is_cache_valid_def is_cache_valid_def cache_durations)
  have same: "td_vessel_count (sample_traffic ''LAX'' 48 1000) = Some 48"
    by (simp add: sample_traffic_def)
  have more: "td_vessel_count (sample_traffic ''LAX'' 50 400000000) = Some 50"
    by (simp add: sample_traffic_def)
  have prev: "dict_get (td_vessel_count (sample_traffic ''LAX'' 48 0)) 0 = 48"
    by (simp add: sample_traffic_def dict_get_def)
  show ?thesis
    using regenerated_trend
        [where store = "store_with_entry ''LAX'' 0 (sample_traffic ''LAX'' 48 0)"
           and port_id = "''LAX''" and stamp = "Some 0"
           and previous = "sample_traffic ''LAX'' 48 0" and force_refresh = True and now = 1000
           and generate_port_traffic = "\<lambda>p. sample_traffic p 48 1000" and vessel_count = 48
           and now_saved = 1001, OF cached forced same]
      regenerated_trend
        [where store = "store_with_entry ''LAX'' 0 (sample_traffic ''LAX'' 48 0)"
           and port_id = "''LAX''" and stamp = "Some 0"
           and previous = "sample_traffic ''LAX'' 48 0" and force_refresh = False
           and now = 400000000
           and generate_port_traffic = "\<lambda>p. sample_traffic p 50 400000000"
           and vessel_count = 50 and now_saved = 400000001, OF cached expired more]
    by (auto simp add: prev)
qed

end
